theory Spec2Isabelle
  imports Main "HOL-Library.Word"
begin

section \<open>JavaScript strings and truthiness\<close>

text \<open>
  A JavaScript string is a sequence of UTF-16 code units. String literals of the source
  that are plain ASCII are written through \<open>ascii\<close>; the two icons of the message
  renderer lie outside the Basic Multilingual Plane and are written as the surrogate
  pairs the engine stores.
\<close>

type_synonym jsstring = "16 word list"

definition ascii :: "string \<Rightarrow> jsstring" where
  "ascii s = map of_char s"

text \<open>
  \<open>String.prototype.trim\<close> removes, from both ends, the code units that ECMAScript
  calls WhiteSpace (TAB, VT, FF, SP, NBSP, ZWNBSP and the Unicode space separators) or
  LineTerminator (LF, CR, LS, PS).
\<close>

definition isWhiteSpace :: "16 word \<Rightarrow> bool" where
  "isWhiteSpace c \<longleftrightarrow> c \<in> set [0x0009, 0x000A, 0x000B, 0x000C, 0x000D, 0x0020, 0x00A0,
     0x1680, 0x2000, 0x2001, 0x2002, 0x2003, 0x2004, 0x2005, 0x2006, 0x2007, 0x2008,
     0x2009, 0x200A, 0x2028, 0x2029, 0x202F, 0x205F, 0x3000, 0xFEFF]"

definition trim :: "jsstring \<Rightarrow> jsstring" where
  "trim s = rev (dropWhile isWhiteSpace (rev (dropWhile isWhiteSpace s)))"

text \<open>
  \<open>ToBoolean\<close> on the two kinds of value the input component tests: a string is truthy
  when it is not empty; an optional boolean prop is truthy when it is present and true
  (\<open>undefined\<close>, here \<open>None\<close>, is falsy).
\<close>

definition truthy_string :: "jsstring \<Rightarrow> bool" where
  "truthy_string s \<longleftrightarrow> s \<noteq> []"

definition truthy_flag :: "bool option \<Rightarrow> bool" where
  "truthy_flag d = (case d of None \<Rightarrow> False | Some b \<Rightarrow> b)"


section \<open>The shared types (src/unnamed/part_000)\<close>

datatype Role = User | Assistant

text \<open>A \<open>Date\<close> wraps a time value in milliseconds since the epoch, or is invalid.\<close>

datatype Date = TimeValue int | InvalidDate

text \<open>The field \<open>id\<close> of the source is \<open>id'\<close> here, \<open>id\<close> being the identity of HOL.\<close>

record Message =
  id' :: jsstring
  role :: Role
  content :: jsstring
  timestamp :: Date

text \<open>
  Values of the interface \<open>ChatResponse\<close>: \<open>sources\<close> is declared with \<open>?\<close>, so it
  may be absent.
\<close>

record ChatResponse =
  answer :: jsstring
  sources :: "jsstring list option"

text \<open>
  The declaration of the interface itself, member by member in the order of the source:
  the name, the declared type, and whether the member carries the \<open>?\<close> mark.
\<close>

datatype tstype = TString | TArray tstype

record member_decl =
  member_name :: string
  member_type :: tstype
  optional :: bool

definition ChatResponse_decl :: "member_decl list" where
  "ChatResponse_decl =
     [\<lparr>member_name = ''answer'', member_type = TString, optional = False\<rparr>,
      \<lparr>member_name = ''sources'', member_type = TArray TString, optional = True\<rparr>]"

text \<open>What an interface declares for a member name: its type and optionality, if any.\<close>

fun declared :: "member_decl list \<Rightarrow> string \<Rightarrow> (tstype \<times> bool) option" where
  "declared [] n = None"
| "declared (d # ds) n =
     (if member_name d = n then Some (member_type d, optional d) else declared ds n)"


section \<open>The input component (src/unnamed/part_001)\<close>

text \<open>
  The props: \<open>disabled\<close> is optional. The callback \<open>onSendMessage\<close> is an effect on the
  caller, so the model records every call of it, oldest first, in the field \<open>sent\<close>
  beside the component's one piece of state, \<open>input\<close>.
\<close>

record ChatInputProps =
  disabled :: "bool option"

record ChatInput =
  input :: jsstring
  sent :: "jsstring list"

definition ChatInput_init :: ChatInput where
  "ChatInput_init = \<lparr>input = [], sent = []\<rparr>"

record KeyboardEvent =
  key :: jsstring
  shiftKey :: bool
  ctrlKey :: bool
  altKey :: bool
  metaKey :: bool
  defaultPrevented :: bool

definition handleSend :: "ChatInputProps \<Rightarrow> ChatInput \<Rightarrow> ChatInput" where
  "handleSend p st =
     (if truthy_string (trim (input st)) \<and> \<not> truthy_flag (disabled p)
      then st\<lparr>sent := sent st @ [trim (input st)], input := []\<rparr>
      else st)"

definition handleKeyPress ::
  "ChatInputProps \<Rightarrow> ChatInput \<Rightarrow> KeyboardEvent \<Rightarrow> KeyboardEvent \<times> ChatInput" where
  "handleKeyPress p st e =
     (if key e = ascii ''Enter'' \<and> \<not> shiftKey e
      then (e\<lparr>defaultPrevented := True\<rparr>, handleSend p st)
      else (e, st))"

text \<open>The \<open>disabled\<close> attribute of the send button: \<open>disabled || !input.trim()\<close>.\<close>

definition buttonDisabled :: "ChatInputProps \<Rightarrow> ChatInput \<Rightarrow> bool" where
  "buttonDisabled p st \<longleftrightarrow> truthy_flag (disabled p) \<or> \<not> truthy_string (trim (input st))"

text \<open>A click on the button: a disabled button dispatches nothing, otherwise \<open>onClick\<close> runs.\<close>

definition click :: "ChatInputProps \<Rightarrow> ChatInput \<Rightarrow> ChatInput" where
  "click p st = (if buttonDisabled p st then st else handleSend p st)"

text \<open>The \<open>onChange\<close> handler of the textarea: \<open>setInput(e.target.value)\<close>.\<close>

definition onChange :: "ChatInput \<Rightarrow> jsstring \<Rightarrow> ChatInput" where
  "onChange st v = st\<lparr>input := v\<rparr>"

text \<open>
  The component over time: each event arrives with the props of the render it happens in.
\<close>

datatype action = Change jsstring | Click | KeyDown KeyboardEvent

fun step :: "ChatInput \<Rightarrow> ChatInputProps \<times> action \<Rightarrow> ChatInput" where
  "step st (p, Change v) = onChange st v"
| "step st (p, Click) = click p st"
| "step st (p, KeyDown e) = snd (handleKeyPress p st e)"

definition run :: "ChatInput \<Rightarrow> (ChatInputProps \<times> action) list \<Rightarrow> ChatInput" where
  "run st evs = foldl step st evs"


section \<open>The message renderer (src/frontend/src/components/ChatMessage.tsx)\<close>

text \<open>The element tree a component returns: a tag, a class name and the children; or text.\<close>

datatype node = Elem jsstring jsstring "node list" | Text jsstring

definition role_string :: "Role \<Rightarrow> jsstring" where
  "role_string r = (case r of User \<Rightarrow> ascii ''user'' | Assistant \<Rightarrow> ascii ''assistant'')"

text \<open>U+1F464 (bust in silhouette) and U+1F916 (robot face), as surrogate pairs.\<close>

definition user_icon :: jsstring where
  "user_icon = [0xD83D, 0xDC64]"

definition assistant_icon :: jsstring where
  "assistant_icon = [0xD83E, 0xDD16]"

definition ChatMessage :: "Message \<Rightarrow> node" where
  "ChatMessage message =
     Elem (ascii ''div'') (ascii ''message '' @ role_string (role message))
       [Elem (ascii ''div'') (ascii ''message-content'')
          [Elem (ascii ''div'') (ascii ''message-icon'')
             [Text (if role message = User then user_icon else assistant_icon)],
           Elem (ascii ''div'') (ascii ''message-text'')
             [Text (content message)]]]"


section \<open>The conversation owner\<close>

text \<open>
  Modelled from the spec: the parent component that owns the conversation and calls the
  backend is not among the sources; only its two children are. The spec gives its
  behaviour: after a submission the client appends the user's message and suspends new
  submissions; when the backend answers it appends one assistant message derived from
  the response and re-enables the input. The result of a backend call is a successful
  \<open>ChatResponse\<close> or a failure indication.
\<close>

datatype BackendResult = Success ChatResponse | Failure

text \<open>
  Modelled from the spec: the state of the parent component, the append-only conversation
  and the flag for the one outstanding request.
\<close>

record App =
  messages :: "Message list"
  isLoading :: bool

text \<open>
  Modelled from the spec: a submission appends the user-authored message and marks the
  request as in flight. The identifier and the creation time of the new message are
  supplied by the environment.
\<close>

definition submitQuestion :: "App \<Rightarrow> jsstring \<Rightarrow> jsstring \<Rightarrow> Date \<Rightarrow> App" where
  "submitQuestion app question uid now =
     app\<lparr>messages := messages app @
            [\<lparr>id' = uid, role = User, content = question, timestamp = now\<rparr>],
         isLoading := True\<rparr>"

text \<open>
  Modelled from the spec: on success one assistant-authored message carrying the answer
  is appended; on failure the spec leaves the choice open, and this model appends
  nothing. Either way the input is re-enabled.
\<close>

definition receiveResult :: "App \<Rightarrow> BackendResult \<Rightarrow> jsstring \<Rightarrow> Date \<Rightarrow> App" where
  "receiveResult app res aid now =
     (case res of
        Success r \<Rightarrow>
          app\<lparr>messages := messages app @
                 [\<lparr>id' = aid, role = Assistant, content = answer r, timestamp = now\<rparr>],
              isLoading := False\<rparr>
      | Failure \<Rightarrow> app\<lparr>isLoading := False\<rparr>)"

text \<open>
  Modelled from the spec: one question round-trip, the submission followed by the
  backend's result.
\<close>

definition roundTrip ::
  "App \<Rightarrow> jsstring \<Rightarrow> jsstring \<Rightarrow> Date \<Rightarrow> BackendResult \<Rightarrow> jsstring \<Rightarrow> Date \<Rightarrow> App" where
  "roundTrip app question uid asked res aid answered =
     receiveResult (submitQuestion app question uid asked) res aid answered"


section \<open>Concrete inputs\<close>

text \<open>
  Props without the \<open>disabled\<close> flag and with it set; a pending input with text between
  white space; a pending input of a space, a line feed and an ideographic space, after an
  earlier emission; and keyboard events by key, shift and ctrl.
\<close>

definition idle :: ChatInputProps where
  "idle = \<lparr>disabled = None\<rparr>"

definition busy :: ChatInputProps where
  "busy = \<lparr>disabled = Some True\<rparr>"

definition draft :: ChatInput where
  "draft = \<lparr>input = ascii ''  hi '', sent = []\<rparr>"

definition blank :: ChatInput where
  "blank = \<lparr>input = [0x0020, 0x000A, 0x3000], sent = [ascii ''earlier'']\<rparr>"

definition key_event :: "string \<Rightarrow> bool \<Rightarrow> bool \<Rightarrow> KeyboardEvent" where
  "key_event k shift ctrl =
     \<lparr>key = ascii k, shiftKey = shift, ctrlKey = ctrl, altKey = False, metaKey = False,
      defaultPrevented = False\<rparr>"


section \<open>Properties of trim\<close>

lemma trim_Nil: "trim [] = []"
  by (simp add: trim_def)

text \<open>
  Trimming from the right leaves a prefix; so a non-empty trimmed string starts and ends
  with a code unit that is not white space, and such a string is left alone by \<open>trim\<close>.
\<close>

lemma rev_dropWhile_rev_prefix: "\<exists>ys. t = rev (dropWhile P (rev t)) @ ys"
proof -
  have "rev t = takeWhile P (rev t) @ dropWhile P (rev t)" by simp
  then have "t = rev (dropWhile P (rev t)) @ rev (takeWhile P (rev t))"
    by (metis rev_append rev_rev_ident)
  then show ?thesis by blast
qed

lemma dropWhile_hd_fixed: "xs \<noteq> [] \<Longrightarrow> \<not> P (hd xs) \<Longrightarrow> dropWhile P xs = xs"
  by (cases xs) auto

lemma trim_hd: "trim s \<noteq> [] \<Longrightarrow> \<not> isWhiteSpace (hd (trim s))"
proof -
  assume ne: "trim s \<noteq> []"
  let ?t = "dropWhile isWhiteSpace s"
  obtain ys where t: "?t = trim s @ ys"
    using rev_dropWhile_rev_prefix [of ?t isWhiteSpace] by (auto simp: trim_def)
  with ne have "?t \<noteq> []" by auto
  then have "\<not> isWhiteSpace (hd ?t)" by (rule hd_dropWhile)
  moreover have "hd ?t = hd (trim s)" using t ne by (metis hd_append2)
  ultimately show ?thesis by simp
qed

lemma trim_last: "trim s \<noteq> [] \<Longrightarrow> \<not> isWhiteSpace (last (trim s))"
proof -
  assume ne: "trim s \<noteq> []"
  let ?r = "dropWhile isWhiteSpace (rev (dropWhile isWhiteSpace s))"
  have r: "trim s = rev ?r" by (simp add: trim_def)
  with ne have "?r \<noteq> []" by simp
  then have "\<not> isWhiteSpace (hd ?r)" by (rule hd_dropWhile)
  moreover have "last (trim s) = hd ?r" using r \<open>?r \<noteq> []\<close> by (simp add: last_rev)
  ultimately show ?thesis by simp
qed

lemma trim_fixed: "s \<noteq> [] \<Longrightarrow> \<not> isWhiteSpace (hd s) \<Longrightarrow> \<not> isWhiteSpace (last s) \<Longrightarrow> trim s = s"
proof -
  assume ne: "s \<noteq> []" and h: "\<not> isWhiteSpace (hd s)" and l: "\<not> isWhiteSpace (last s)"
  have 1: "dropWhile isWhiteSpace s = s" using ne h by (rule dropWhile_hd_fixed)
  have "rev s \<noteq> []" using ne by simp
  moreover have "\<not> isWhiteSpace (hd (rev s))" using l ne by (simp add: hd_rev)
  ultimately have 2: "dropWhile isWhiteSpace (rev s) = rev s" by (rule dropWhile_hd_fixed)
  show ?thesis by (simp add: trim_def 1 2)
qed

lemma trim_idem: "trim (trim s) = trim s"
proof (cases "trim s = []")
  case True
  then show ?thesis by (simp add: trim_Nil)
next
  case False
  then show ?thesis by (intro trim_fixed trim_hd trim_last)
qed

lemma dropWhile_all_iff: "(\<forall>x \<in> set (dropWhile P xs). P x) \<longleftrightarrow> (\<forall>x \<in> set xs. P x)"
  by (induction xs) auto

lemma trim_all_ws: "trim s = [] \<longleftrightarrow> (\<forall>c \<in> set s. isWhiteSpace c)"
  by (simp add: trim_def dropWhile_eq_Nil_conv dropWhile_all_iff)


section \<open>The handlers of the input component\<close>

lemma handleSend_rejected:
  "trim (input st) = [] \<or> truthy_flag (disabled p) \<Longrightarrow> handleSend p st = st"
  by (auto simp: handleSend_def truthy_string_def)

lemma handleSend_accepted:
  "trim (input st) \<noteq> [] \<Longrightarrow> \<not> truthy_flag (disabled p) \<Longrightarrow>
   handleSend p st = st\<lparr>sent := sent st @ [trim (input st)], input := []\<rparr>"
  by (simp add: handleSend_def truthy_string_def)

text \<open>
  The button's own \<open>disabled\<close> attribute repeats the guard of \<open>handleSend\<close>, so a click
  does what a direct call of the handler does.
\<close>

lemma click_eq_handleSend: "click p st = handleSend p st"
  by (auto simp: click_def buttonDisabled_def handleSend_def)

lemma handleKeyPress_cases:
  "snd (handleKeyPress p st e) = st \<or> snd (handleKeyPress p st e) = handleSend p st"
  by (simp add: handleKeyPress_def)

lemma trim_draft: "trim (input draft) = ascii ''hi''"
  by (simp add: draft_def trim_def isWhiteSpace_def ascii_def)

lemma trim_blank: "trim (input blank) = []"
  by (simp add: blank_def trim_def isWhiteSpace_def)


subsection \<open>Submitting blank input\<close>

text \<open>
  Claim C1. When the trim of the pending input is empty (the input is empty or consists
  of white space only, see \<open>trim_all_ws\<close>), a submit emits nothing to the caller,
  whichever way it is triggered: a direct call of \<open>handleSend\<close>, a click on the button or
  a key press. The record of calls of \<open>onSendMessage\<close> stays as it was.
\<close>

theorem blank_submit_emits_nothing:
  "trim (input st) = [] \<Longrightarrow>
   sent (handleSend p st) = sent st \<and> sent (click p st) = sent st \<and>
   sent (snd (handleKeyPress p st e)) = sent st"
  by (simp add: handleSend_rejected click_eq_handleSend handleKeyPress_def)

theorem blank_submit_emits_nothing_witness:
  "trim (input blank) = [] \<and>
   sent (handleSend idle blank) = [ascii ''earlier''] \<and>
   sent (click idle blank) = [ascii ''earlier''] \<and>
   sent (snd (handleKeyPress idle blank (key_event ''Enter'' False False))) = [ascii ''earlier'']"
  using blank_submit_emits_nothing [of blank idle "key_event ''Enter'' False False"] trim_blank
  by (simp add: blank_def)


subsection \<open>Submitting while a request is in flight\<close>

lemma step_in_flight: "truthy_flag (disabled p) \<Longrightarrow> sent (step st (p, a)) = sent st"
  by (cases a)
    (simp_all add: onChange_def click_eq_handleSend handleSend_rejected handleKeyPress_def)

text \<open>
  Claim C2. While the \<open>disabled\<close> flag is set, every submit action is rejected: over any
  sequence of events (changes of the text, clicks, key presses) that all happen with the
  flag set, \<open>onSendMessage\<close> is never called, so the record of its calls does not grow.
\<close>

theorem in_flight_never_sends:
  "\<forall>ev \<in> set evs. truthy_flag (disabled (fst ev)) \<Longrightarrow> sent (run st evs) = sent st"
proof (induction evs arbitrary: st)
  case Nil
  then show ?case by (simp add: run_def)
next
  case (Cons ev evs)
  obtain p a where ev: "ev = (p, a)" by (cases ev)
  with Cons.prems have "sent (step st ev) = sent st" by (simp add: step_in_flight)
  moreover from Cons have "sent (run (step st ev) evs) = sent (step st ev)" by simp
  ultimately show ?case by (simp add: run_def)
qed

theorem in_flight_never_sends_witness:
  "truthy_flag (disabled busy) \<and>
   sent (run draft [(busy, Click), (busy, KeyDown (key_event ''Enter'' False False)),
                    (busy, Change (ascii ''again'')), (busy, Click)]) = []"
  using in_flight_never_sends
    [of "[(busy, Click), (busy, KeyDown (key_event ''Enter'' False False)),
          (busy, Change (ascii ''again'')), (busy, Click)]" draft]
  by (simp add: busy_def truthy_flag_def draft_def)


subsection \<open>An accepted submit\<close>

text \<open>
  Claim C3. When the trim of the pending input is not empty and no request is in flight,
  a submit calls \<open>onSendMessage\<close> exactly once, with the trimmed input, and leaves the
  pending input empty. This holds for each way of submitting: a direct call of
  \<open>handleSend\<close>, a click on the button, and a press of Enter without shift.
\<close>

theorem submit_emits_trimmed_and_clears:
  "trim (input st) \<noteq> [] \<Longrightarrow> \<not> truthy_flag (disabled p) \<Longrightarrow>
   handleSend p st = \<lparr>input = [], sent = sent st @ [trim (input st)]\<rparr> \<and>
   click p st = \<lparr>input = [], sent = sent st @ [trim (input st)]\<rparr> \<and>
   (key e = ascii ''Enter'' \<and> \<not> shiftKey e \<longrightarrow>
      snd (handleKeyPress p st e) = \<lparr>input = [], sent = sent st @ [trim (input st)]\<rparr>)"
  by (simp add: handleSend_accepted click_eq_handleSend handleKeyPress_def)

theorem submit_emits_trimmed_and_clears_witness:
  "trim (input draft) \<noteq> [] \<and> \<not> truthy_flag (disabled idle) \<and>
   key (key_event ''Enter'' False False) = ascii ''Enter'' \<and>
   \<not> shiftKey (key_event ''Enter'' False False) \<and>
   handleSend idle draft = \<lparr>input = [], sent = [ascii ''hi'']\<rparr> \<and>
   click idle draft = \<lparr>input = [], sent = [ascii ''hi'']\<rparr> \<and>
   snd (handleKeyPress idle draft (key_event ''Enter'' False False)) =
     \<lparr>input = [], sent = [ascii ''hi'']\<rparr>"
  using submit_emits_trimmed_and_clears [of draft idle "key_event ''Enter'' False False"]
    trim_draft
  by (simp add: idle_def truthy_flag_def draft_def ascii_def key_event_def)


subsection \<open>The commit key\<close>

text \<open>
  The handler of key presses looks at the key and at \<open>shiftKey\<close> only. With the ctrl key
  held, Enter still submits: the pending input \<open>draft\<close> is emitted, although a modifier is
  pressed.
\<close>

theorem ctrl_enter_submits:
  "\<not> (sent (snd (handleKeyPress idle draft (key_event ''Enter'' False True))) \<noteq> sent draft \<longleftrightarrow>
       key (key_event ''Enter'' False True) = ascii ''Enter'' \<and>
       \<not> shiftKey (key_event ''Enter'' False True) \<and>
       \<not> ctrlKey (key_event ''Enter'' False True) \<and>
       \<not> altKey (key_event ''Enter'' False True) \<and>
       \<not> metaKey (key_event ''Enter'' False True))"
  using trim_draft
  by (simp add: handleKeyPress_def key_event_def handleSend_def truthy_string_def idle_def
      truthy_flag_def ascii_def)

text \<open>
  Claim C4, as amended. A key press triggers a submit exactly when the key is Enter and
  the shift key is not held; ctrl, alt and meta are not consulted. On a state where a
  submit is accepted, a message is emitted if and only if the key is Enter without shift.
\<close>

theorem enter_without_shift_submits:
  "trim (input st) \<noteq> [] \<Longrightarrow> \<not> truthy_flag (disabled p) \<Longrightarrow>
   sent (snd (handleKeyPress p st e)) \<noteq> sent st \<longleftrightarrow> key e = ascii ''Enter'' \<and> \<not> shiftKey e"
  by (simp add: handleKeyPress_def handleSend_accepted)

theorem enter_without_shift_submits_witness:
  "trim (input draft) \<noteq> [] \<and> \<not> truthy_flag (disabled idle) \<and>
   sent (snd (handleKeyPress idle draft (key_event ''Enter'' False True))) \<noteq> sent draft \<and>
   sent (snd (handleKeyPress idle draft (key_event ''Enter'' True False))) = sent draft \<and>
   sent (snd (handleKeyPress idle draft (key_event ''a'' False False))) = sent draft"
  using enter_without_shift_submits [of draft idle "key_event ''Enter'' False True"]
    enter_without_shift_submits [of draft idle "key_event ''Enter'' True False"]
    enter_without_shift_submits [of draft idle "key_event ''a'' False False"] trim_draft
  by (simp add: idle_def truthy_flag_def key_event_def ascii_def)


subsection \<open>A rejected submit\<close>

text \<open>
  Claim C8. A submit that is rejected, because the trim of the pending input is empty or
  because the component is disabled, changes nothing: the pending input and the record
  of emissions are what they were, for a direct call, a click and a key press alike.
\<close>

theorem rejected_submit_noop:
  "trim (input st) = [] \<or> truthy_flag (disabled p) \<Longrightarrow>
   handleSend p st = st \<and> click p st = st \<and> snd (handleKeyPress p st e) = st"
  by (simp add: handleSend_rejected click_eq_handleSend handleKeyPress_def)

theorem rejected_submit_noop_witness:
  "trim (input blank) = [] \<and> truthy_flag (disabled busy) \<and>
   handleSend idle blank = blank \<and> handleSend busy draft = draft \<and>
   snd (handleKeyPress busy draft (key_event ''Enter'' False False)) = draft"
  using rejected_submit_noop [of blank idle "key_event ''Enter'' False False"]
    rejected_submit_noop [of draft busy "key_event ''Enter'' False False"] trim_blank
  by (simp add: busy_def truthy_flag_def)


subsection \<open>What the caller receives\<close>

lemma handleSend_emits:
  "set (sent (handleSend p st)) \<subseteq> set (sent st) \<union> {s. s \<noteq> [] \<and> trim s = s}"
  by (auto simp: handleSend_def truthy_string_def trim_idem)

lemma step_emits:
  "set (sent (step st ev)) \<subseteq> set (sent st) \<union> {s. s \<noteq> [] \<and> trim s = s}"
proof -
  obtain p a where ev: "ev = (p, a)" by (cases ev)
  show ?thesis
  proof (cases a)
    case (Change v)
    with ev show ?thesis by (simp add: onChange_def)
  next
    case Click
    with ev show ?thesis using handleSend_emits [of p st] by (simp add: click_eq_handleSend)
  next
    case (KeyDown e)
    with ev show ?thesis using handleSend_emits [of p st] handleKeyPress_cases [of p st e]
      by auto
  qed
qed

lemma run_emits:
  "set (sent (run st evs)) \<subseteq> set (sent st) \<union> {s. s \<noteq> [] \<and> trim s = s}"
proof (induction evs arbitrary: st)
  case Nil
  then show ?case by (simp add: run_def)
next
  case (Cons ev evs)
  have "set (sent (run (step st ev) evs))
      \<subseteq> set (sent (step st ev)) \<union> {s. s \<noteq> [] \<and> trim s = s}"
    by (rule Cons.IH)
  with step_emits [of st ev] show ?case by (auto simp: run_def)
qed

text \<open>
  Claim C9. Every string the component emits, over any sequence of events from its
  initial state, is not empty and is a fixed point of \<open>trim\<close>: the caller never receives
  white space at either end.
\<close>

theorem emitted_nonempty_trim_fixed:
  "\<forall>s \<in> set (sent (run ChatInput_init evs)). s \<noteq> [] \<and> trim s = s"
  using run_emits [of ChatInput_init evs] by (auto simp: ChatInput_init_def)

theorem emitted_nonempty_trim_fixed_witness:
  "sent (run ChatInput_init [(idle, Change (ascii '' hi '')), (idle, Click),
       (idle, Change (ascii ''ok '')), (idle, KeyDown (key_event ''Enter'' False False))])
     = [ascii ''hi'', ascii ''ok''] \<and>
   trim (ascii ''hi'') = ascii ''hi'' \<and> trim (ascii ''ok'') = ascii ''ok''"
  using emitted_nonempty_trim_fixed
    [of "[(idle, Change (ascii '' hi '')), (idle, Click),
          (idle, Change (ascii ''ok '')), (idle, KeyDown (key_event ''Enter'' False False))]"]
  by (simp add: run_def ChatInput_init_def onChange_def click_def buttonDisabled_def
      handleSend_def handleKeyPress_def key_event_def idle_def truthy_flag_def
      truthy_string_def trim_def isWhiteSpace_def ascii_def)


section \<open>The response contract\<close>

text \<open>
  The interface \<open>ChatResponse\<close> declares no member \<open>status\<close>, so it does not consist of
  an answer, a status and optional sources.
\<close>

theorem ChatResponse_without_status:
  "\<not> (declared ChatResponse_decl ''answer'' = Some (TString, False) \<and>
       declared ChatResponse_decl ''status'' = Some (TString, False) \<and>
       declared ChatResponse_decl ''sources'' = Some (TArray TString, True))"
  by (simp add: ChatResponse_decl_def)

text \<open>
  Claim C5, as amended. The client-facing response type consists of an answer of type
  string and an optional sources member of type string array, and of nothing else; it
  declares no status.
\<close>

theorem ChatResponse_members:
  "map member_name ChatResponse_decl = [''answer'', ''sources''] \<and>
   declared ChatResponse_decl ''answer'' = Some (TString, False) \<and>
   declared ChatResponse_decl ''sources'' = Some (TArray TString, True) \<and>
   declared ChatResponse_decl ''status'' = None"
  by (simp add: ChatResponse_decl_def)


section \<open>The renderer\<close>

text \<open>
  Claim C6. The renderer is a function of the message alone: it reads the message and
  returns an element tree, and touches nothing else. A message of role user is rendered
  with the class \<open>message user\<close> and the user icon, a message of role assistant with the
  class \<open>message assistant\<close> and the assistant icon, and the two classes and the two
  icons differ.
\<close>

theorem ChatMessage_by_role:
  "ChatMessage \<lparr>id' = i, role = User, content = c, timestamp = t\<rparr> =
     Elem (ascii ''div'') (ascii ''message user'')
       [Elem (ascii ''div'') (ascii ''message-content'')
          [Elem (ascii ''div'') (ascii ''message-icon'') [Text user_icon],
           Elem (ascii ''div'') (ascii ''message-text'') [Text c]]] \<and>
   ChatMessage \<lparr>id' = i, role = Assistant, content = c, timestamp = t\<rparr> =
     Elem (ascii ''div'') (ascii ''message assistant'')
       [Elem (ascii ''div'') (ascii ''message-content'')
          [Elem (ascii ''div'') (ascii ''message-icon'') [Text assistant_icon],
           Elem (ascii ''div'') (ascii ''message-text'') [Text c]]] \<and>
   ascii ''message user'' \<noteq> ascii ''message assistant'' \<and> user_icon \<noteq> assistant_icon"
  by (simp add: ChatMessage_def role_string_def ascii_def user_icon_def assistant_icon_def)

text \<open>
  Claim C10. The rendered tree depends on the role and the content of the message only:
  two messages that agree on both are rendered alike, whatever their identifiers and
  timestamps.
\<close>

theorem ChatMessage_role_content_only:
  "role m = role m' \<Longrightarrow> content m = content m' \<Longrightarrow> ChatMessage m = ChatMessage m'"
  by (simp add: ChatMessage_def)

theorem ChatMessage_role_content_only_witness:
  "ChatMessage \<lparr>id' = ascii ''1'', role = Assistant, content = ascii ''Hello'',
                timestamp = TimeValue 0\<rparr> =
   ChatMessage \<lparr>id' = ascii ''2'', role = Assistant, content = ascii ''Hello'',
                timestamp = InvalidDate\<rparr>"
  using ChatMessage_role_content_only
    [of "\<lparr>id' = ascii ''1'', role = Assistant, content = ascii ''Hello'',
          timestamp = TimeValue 0\<rparr>"
        "\<lparr>id' = ascii ''2'', role = Assistant, content = ascii ''Hello'',
          timestamp = InvalidDate\<rparr>"]
  by simp


section \<open>The conversation\<close>

text \<open>
  Claim C7. A successful round-trip appends exactly two messages to the conversation:
  the user's message with the question, then one assistant message with the answer of
  the backend's response. The conversation before it is kept as a prefix.
\<close>

theorem roundTrip_appends_user_then_assistant:
  "messages (roundTrip app question uid asked (Success r) aid answered) =
     messages app @
       [\<lparr>id' = uid, role = User, content = question, timestamp = asked\<rparr>,
        \<lparr>id' = aid, role = Assistant, content = answer r, timestamp = answered\<rparr>] \<and>
   length (messages (roundTrip app question uid asked (Success r) aid answered)) =
     length (messages app) + 2"
  by (simp add: roundTrip_def receiveResult_def submitQuestion_def)

end
